theory Spec2Isabelle
  imports
    Complex_Main
    "HOL-Library.Char_ord"
    "HOL-Library.List_Lexorder"
    "HOL-Library.Product_Lexorder"
    "HOL-Library.Multiset"
    "HOL-Library.Sublist"
begin

section \<open>Budget tracker: data model\<close>

text \<open>
  The program (\<^verbatim>\<open>src/app1.py\<close>) keeps one table of transactions and computes
  its reports from the whole table each time. A row of the table has the columns
  \<^verbatim>\<open>id, type, category, amount, currency, date, notes\<close>; the fields below carry
  the prefix \<open>row_\<close> so that the functions can keep the parameter names of the source
  (\<^verbatim>\<open>tx_type\<close>, \<^verbatim>\<open>category\<close>, \<^verbatim>\<open>amount\<close>, ...). Stored amounts are
  modelled as reals. Text is the language's Unicode text, held as its UTF-8 bytes: a
  character is one byte below 0x80 or a lead byte followed by continuation bytes, and
  the order of the bytes is the order of the characters' code points. A date is a
  calendar date without a time of day, which is also how the table's ISO-8601 text
  column \<^verbatim>\<open>date\<close> is read here.
\<close>

datatype date = Date (d_year: int) (d_month: int) (d_day: int)

record transaction =
  row_id :: int
  row_type :: string
  row_category :: string
  row_amount :: real
  row_currency :: string
  row_date :: date
  row_notes :: "string option"

type_synonym dataframe = "transaction list"

text \<open>
  The two report tables: \<^verbatim>\<open>metric, value\<close> rows of a summary and
  \<^verbatim>\<open>category, amount\<close> rows of a breakdown.
\<close>

type_synonym summary_frame = "(string \<times> real) list"
type_synonym category_frame = "(string \<times> real) list"

datatype py_error = IndexError | UnicodeEncodeError

section \<open>Characters of a text\<close>

text \<open>
  Slicing, stripping and encoding work on characters, not bytes. \<open>chars\<close> cuts a
  text into its characters; \<open>first_chars n\<close> is the slice \<^verbatim>\<open>[:n]\<close>. A text can
  be encoded as Latin-1 when all its characters are at most U+00FF, which in UTF-8
  are the single bytes and the two-byte characters led by 0xC2 or 0xC3: no byte of the
  text is 0xC4 or more. \<open>strip\<close> is \<^verbatim>\<open>str.strip()\<close>, which removes the
  characters the language counts as white space (\<open>whitespace\<close> lists them, from
  U+0009 to U+3000) from both ends.
\<close>

definition continuation :: "char \<Rightarrow> bool" where
  "continuation c = (128 \<le> (of_char c :: nat) \<and> (of_char c :: nat) < 192)"

function chars :: "string \<Rightarrow> string list" where
  "chars [] = []"
| "chars (c # cs) = (c # takeWhile continuation cs) # chars (dropWhile continuation cs)"
  by pat_completeness auto
termination
  by (relation "measure length") (auto simp: less_Suc_eq_le length_dropWhile_le)

definition first_chars :: "nat \<Rightarrow> string \<Rightarrow> string" where
  "first_chars n s = concat (take n (chars s))"

definition latin1 :: "string \<Rightarrow> bool" where
  "latin1 s = list_all (\<lambda>c. (of_char c :: nat) < 196) s"

definition whitespace :: "string list" where
  "whitespace =
     [[CHR 0x09], [CHR 0x0A], [CHR 0x0B], [CHR 0x0C], [CHR 0x0D],
      [CHR 0x1C], [CHR 0x1D], [CHR 0x1E], [CHR 0x1F], [CHR 0x20],
      [CHR 0xC2, CHR 0x85], [CHR 0xC2, CHR 0xA0], [CHR 0xE1, CHR 0x9A, CHR 0x80],
      [CHR 0xE2, CHR 0x80, CHR 0x80], [CHR 0xE2, CHR 0x80, CHR 0x81],
      [CHR 0xE2, CHR 0x80, CHR 0x82], [CHR 0xE2, CHR 0x80, CHR 0x83],
      [CHR 0xE2, CHR 0x80, CHR 0x84], [CHR 0xE2, CHR 0x80, CHR 0x85],
      [CHR 0xE2, CHR 0x80, CHR 0x86], [CHR 0xE2, CHR 0x80, CHR 0x87],
      [CHR 0xE2, CHR 0x80, CHR 0x88], [CHR 0xE2, CHR 0x80, CHR 0x89],
      [CHR 0xE2, CHR 0x80, CHR 0x8A], [CHR 0xE2, CHR 0x80, CHR 0xA8],
      [CHR 0xE2, CHR 0x80, CHR 0xA9], [CHR 0xE2, CHR 0x80, CHR 0xAF],
      [CHR 0xE2, CHR 0x81, CHR 0x9F], [CHR 0xE3, CHR 0x80, CHR 0x80]]"

definition isspace :: "string \<Rightarrow> bool" where
  "isspace c = (c \<in> set whitespace)"

definition strip :: "string \<Rightarrow> string" where
  "strip s = concat (rev (dropWhile isspace (rev (dropWhile isspace (chars s)))))"

section \<open>Aggregation\<close>

text \<open>
  Both report functions narrow the table with the same four lines
  (\<^verbatim>\<open>if year: tmp = tmp[tmp['date'].dt.year == year]\<close>, then the same for
  the month). The test \<^verbatim>\<open>if year:\<close> is Python truthiness: \<^verbatim>\<open>None\<close> and
  \<^verbatim>\<open>0\<close> both leave the table as it is.
\<close>

definition filter_period :: "dataframe \<Rightarrow> int option \<Rightarrow> int option \<Rightarrow> dataframe" where
  "filter_period df year month =
     (let tmp = df;
          tmp = (case year of
                   None \<Rightarrow> tmp
                 | Some y \<Rightarrow> if y \<noteq> 0 then filter (\<lambda>t. d_year (row_date t) = y) tmp else tmp);
          tmp = (case month of
                   None \<Rightarrow> tmp
                 | Some m \<Rightarrow> if m \<noteq> 0 then filter (\<lambda>t. d_month (row_date t) = m) tmp else tmp)
      in tmp)"

definition monthly_summary :: "dataframe \<Rightarrow> int option \<Rightarrow> int option \<Rightarrow> summary_frame" where
  "monthly_summary df year month =
     (if df = [] then []
      else
        let tmp = filter_period df year month;
            income = sum_list (map row_amount (filter (\<lambda>t. row_type t = ''income'') tmp));
            expense = sum_list (map row_amount (filter (\<lambda>t. row_type t = ''expense'') tmp));
            balance = income - expense
        in [(''Total Income'', income), (''Total Expense'', expense), (''Balance'', balance)])"


text \<open>The summary whose three metrics are all zero.\<close>

definition zero_summary :: summary_frame where
  "zero_summary = [(''Total Income'', 0), (''Total Expense'', 0), (''Balance'', 0)]"

text \<open>
  \<^verbatim>\<open>tmp.groupby('category')['amount'].sum().reset_index()\<close>: one row per category
  of the table, the categories in ascending order (the library sorts the group keys),
  each with the sum of its amounts.
\<close>

definition groupby_sum :: "dataframe \<Rightarrow> category_frame" where
  "groupby_sum tmp =
     map (\<lambda>c. (c, sum_list (map row_amount (filter (\<lambda>t. row_category t = c) tmp))))
       (sort (remdups (map row_category tmp)))"

subsection \<open>Sorting the breakdown\<close>

text \<open>
  The breakdown ends with \<^verbatim>\<open>.sort_values('amount', ascending=False)\<close>. The data-frame
  library sorts a frame on one column by asking the array library for the indices that
  put the column's values in ascending order (\<^verbatim>\<open>argsort\<close>, with its default kind
  \<^verbatim>\<open>'quicksort'\<close>); for a descending sort it hands the values over in reverse order
  and reverses the answer. \<open>sort_values\<close> is that step, with the sort column and
  the direction as the source passes them; the array library's \<open>argsort\<close> is a
  parameter. \<open>sorts_ascending\<close> is what the array library promises of it: the
  indices are a rearrangement of all positions, and the values they pick ascend. The
  default kind is documented as not stable, and the source names no second sort key.
  The library sets missing values aside first and puts them last; the sums sorted here
  are reals, so every value takes part in the sort (\<open>non_nans\<close> is all of them).
\<close>

definition sort_values ::
  "(real list \<Rightarrow> nat list) \<Rightarrow> (string \<times> real \<Rightarrow> real) \<Rightarrow> bool \<Rightarrow> category_frame
     \<Rightarrow> category_frame" where
  "sort_values argsort by_column ascending frame =
     (let items = map by_column frame;
          idx = [0..<length items];
          non_nans = (if ascending then items else rev items);
          non_nan_idx = (if ascending then idx else rev idx);
          indexer = map (\<lambda>i. non_nan_idx ! i) (argsort non_nans);
          indexer = (if ascending then indexer else rev indexer)
      in map (\<lambda>i. frame ! i) indexer)"

definition category_breakdown ::
  "(real list \<Rightarrow> nat list) \<Rightarrow> dataframe \<Rightarrow> int option \<Rightarrow> int option \<Rightarrow> string
     \<Rightarrow> category_frame" where
  "category_breakdown argsort df year month tx_type =
     (if df = [] then []
      else
        let tmp = filter_period df year month;
            tmp = filter (\<lambda>t. row_type t = tx_type) tmp
        in sort_values argsort snd False (groupby_sum tmp))"



text \<open>
  The array library's quicksort of indices, as its source has it: segments of more than
  17 positions are partitioned around the median of their first, middle and last value
  (two scans that stop at values equal to the pivot and exchange them), segments of at
  most 17 positions are sorted by insertion, which keeps equal values in order. \<open>v\<close>
  holds the values, \<open>a\<close> the indices being arranged, \<open>pl\<close> and \<open>pr\<close> bound the
  segment. After \<open>2 * msb n\<close> levels of partitioning the library switches to
  heapsort, which is not followed here: \<open>quicksort_range\<close> is \<open>None\<close> there.
  This is the library's portable routine. A build of the library that sorts with
  vector instructions may leave equal values in another order again; the library's
  documentation promises none for this kind of sort.
\<close>

definition swap :: "nat \<Rightarrow> nat \<Rightarrow> nat list \<Rightarrow> nat list" where
  "swap i j a = (a[i := a ! j])[j := a ! i]"

function scan_up :: "real list \<Rightarrow> real \<Rightarrow> nat list \<Rightarrow> nat \<Rightarrow> nat" where
  "scan_up v vp a i = (if i < length a \<and> v ! (a ! i) < vp then scan_up v vp a (Suc i) else i)"
  by pat_completeness auto
termination
  by (relation "measure (\<lambda>(v, vp, a, i). length a - i)") auto

function scan_down :: "real list \<Rightarrow> real \<Rightarrow> nat list \<Rightarrow> nat \<Rightarrow> nat" where
  "scan_down v vp a j = (if 0 < j \<and> vp < v ! (a ! j) then scan_down v vp a (j - 1) else j)"
  by pat_completeness auto
termination
  by (relation "measure (\<lambda>(v, vp, a, j). j)") auto

declare scan_up.simps [simp del] scan_down.simps [simp del]

lemma scan_up_ge: "i \<le> scan_up v vp a i"
proof (induction v vp a i rule: scan_up.induct)
  case (1 v vp a i)
  show ?case
  proof (cases "i < length a \<and> v ! (a ! i) < vp")
    case True
    with "1" have "Suc i \<le> scan_up v vp a (Suc i)" by simp
    with True show ?thesis by (subst scan_up.simps) simp
  next
    case False
    then show ?thesis by (subst scan_up.simps) auto
  qed
qed

lemma scan_down_le: "scan_down v vp a j \<le> j"
proof (induction v vp a j rule: scan_down.induct)
  case (1 v vp a j)
  show ?case
  proof (cases "0 < j \<and> vp < v ! (a ! j)")
    case True
    with "1" have "scan_down v vp a (j - 1) \<le> j - 1" by simp
    with True show ?thesis by (subst scan_down.simps) simp
  next
    case False
    then show ?thesis by (subst scan_down.simps) auto
  qed
qed

function partition_loop ::
  "real list \<Rightarrow> real \<Rightarrow> nat \<Rightarrow> nat \<Rightarrow> nat list \<Rightarrow> nat \<times> nat list" where
  "partition_loop v vp p_i p_j a =
     (let p_i' = scan_up v vp a (Suc p_i);
          p_j' = scan_down v vp a (p_j - 1)
      in if p_i' \<ge> p_j' then (p_i', a)
         else partition_loop v vp p_i' p_j' (swap p_i' p_j' a))"
  by pat_completeness auto
termination
proof (relation "measure (\<lambda>(v, vp, p_i, p_j, a). p_j - p_i)", goal_cases)
  case 1
  then show ?case by simp
next
  case (2 v vp p_i p_j a x xa)
  have "Suc p_i \<le> x" using 2(1) scan_up_ge by simp
  moreover have "xa \<le> p_j - 1" using 2(2) scan_down_le by simp
  ultimately show ?case using 2(3) by simp
qed

declare partition_loop.simps [simp del]

definition insertion_sort_range :: "real list \<Rightarrow> nat \<Rightarrow> nat \<Rightarrow> nat list \<Rightarrow> nat list" where
  "insertion_sort_range v pl pr a =
     take pl a @ sort_key (\<lambda>i. v ! i) (take (Suc pr - pl) (drop pl a)) @ drop (Suc pr) a"

primrec quicksort_range ::
  "nat \<Rightarrow> real list \<Rightarrow> nat \<Rightarrow> nat \<Rightarrow> nat list \<Rightarrow> nat list option" where
  "quicksort_range 0 v pl pr a =
     (if pr - pl > 16 then None else Some (insertion_sort_range v pl pr a))"
| "quicksort_range (Suc depth) v pl pr a =
     (if pr - pl > 16 then
        (let pm = pl + (pr - pl) div 2;
             a = (if v ! (a ! pm) < v ! (a ! pl) then swap pm pl a else a);
             a = (if v ! (a ! pr) < v ! (a ! pm) then swap pr pm a else a);
             a = (if v ! (a ! pm) < v ! (a ! pl) then swap pm pl a else a);
             vp = v ! (a ! pm);
             a = swap pm (pr - 1) a;
             (p_i, a) = partition_loop v vp pl (pr - 1) a;
             a = swap p_i (pr - 1) a
         in case quicksort_range depth v pl (p_i - 1) a of
              None \<Rightarrow> None
            | Some a \<Rightarrow> quicksort_range depth v (Suc p_i) pr a)
      else Some (insertion_sort_range v pl pr a))"

fun msb :: "nat \<Rightarrow> nat" where
  "msb n = (if n < 2 then 0 else Suc (msb (n div 2)))"

declare msb.simps [simp del]

text \<open>
  \<open>stable_argsort\<close> is the order every stable kind gives, and the default kind too
  on at most 17 values. \<open>quicksort_argsort\<close> is the default kind; where the
  model of the quicksort gives up it falls back on the stable order (the instances
  below never get there).
\<close>

definition stable_argsort :: "real list \<Rightarrow> nat list" where
  "stable_argsort keys = sort_key (\<lambda>i. keys ! i) [0..<length keys]"

definition quicksort_argsort :: "real list \<Rightarrow> nat list" where
  "quicksort_argsort keys =
     (case quicksort_range (2 * msb (length keys)) keys 0 (length keys - 1)
             [0..<length keys] of
        Some a \<Rightarrow> a
      | None \<Rightarrow> stable_argsort keys)"

section \<open>Text of numbers and dates\<close>

text \<open>
  \<^verbatim>\<open>f"{x:.2f}"\<close> and \<^verbatim>\<open>str(d)\<close> for a date \<open>d\<close>. The number is rounded to
  the nearest hundredth (an exact half goes to the even neighbour, as the language's
  correctly rounded formatting does on the exact value), the sign is kept, and the date
  is written \<^verbatim>\<open>YYYY-MM-DD\<close> with leading zeros.
\<close>

definition digit_char :: "nat \<Rightarrow> char" where
  "digit_char n = ''0123456789'' ! (n mod 10)"

fun digits :: "nat \<Rightarrow> string" where
  "digits n = (if n < 10 then [digit_char n] else digits (n div 10) @ [digit_char n])"

declare digits.simps [simp del]

definition zfill :: "nat \<Rightarrow> string \<Rightarrow> string" where
  "zfill width s = replicate (width - length s) CHR ''0'' @ s"

definition isoformat :: "date \<Rightarrow> string" where
  "isoformat d =
     zfill 4 (digits (nat (d_year d))) @ ''-'' @
     zfill 2 (digits (nat (d_month d))) @ ''-'' @
     zfill 2 (digits (nat (d_day d)))"

definition round_half_even :: "real \<Rightarrow> int" where
  "round_half_even x =
     (let f = \<lfloor>x\<rfloor>; r = x - of_int f
      in if r < 1 / 2 then f
         else if 1 / 2 < r then f + 1
         else if even f then f else f + 1)"

definition format_2f :: "real \<Rightarrow> string" where
  "format_2f x =
     (let n = nat (round_half_even (\<bar>x\<bar> * 100))
      in (if x < 0 then ''-'' else '''') @ digits (n div 100) @ ''.'' @
         [digit_char (n div 10), digit_char n])"

text \<open>
  The values in the frames handed to the PDF renderer are floating-point numbers as
  they are: a finite number, one of the two infinities (a sum of amounts that
  overflowed), or NaN (the difference of two such sums). \<open>at_least_zero\<close> is the
  comparison \<^verbatim>\<open>value >= 0\<close>, which is false of NaN, as every comparison with NaN is;
  \<open>below_zero\<close> is \<^verbatim>\<open>value < 0\<close>. \<open>as_floats\<close> carries the finite results of
  the aggregation over.
\<close>

datatype float = Finite real | PosInf | NegInf | NaN

fun at_least_zero :: "float \<Rightarrow> bool" where
  "at_least_zero (Finite x) = (0 \<le> x)"
| "at_least_zero PosInf = True"
| "at_least_zero NegInf = False"
| "at_least_zero NaN = False"

fun below_zero :: "float \<Rightarrow> bool" where
  "below_zero (Finite x) = (x < 0)"
| "below_zero PosInf = False"
| "below_zero NegInf = True"
| "below_zero NaN = False"

fun format_2f_float :: "float \<Rightarrow> string" where
  "format_2f_float (Finite x) = format_2f x"
| "format_2f_float PosInf = ''inf''"
| "format_2f_float NegInf = ''-inf''"
| "format_2f_float NaN = ''nan''"

type_synonym report_frame = "(string \<times> float) list"

definition as_floats :: "(string \<times> real) list \<Rightarrow> report_frame" where
  "as_floats frame = map (\<lambda>row. (fst row, Finite (snd row))) frame"

section \<open>PDF rendering\<close>

text \<open>
  The PDF library is driven by method calls on one document object. The document is
  modelled as the list of the calls made on it, in order. A call
  \<^verbatim>\<open>cell(w, h, txt, border, ln, align, fill)\<close> draws one box of text; the text
  colour in force is the one of the latest \<^verbatim>\<open>set_text_color\<close>.
\<close>

type_synonym color = "nat \<times> nat \<times> nat"

datatype pdf_op =
    SetAutoPageBreak bool nat
  | AddPage
  | SetFont string string nat
  | SetTextColor color
  | SetFillColor color
  | Cell (cell_w: nat) (cell_h: nat) (cell_txt: string) (cell_border: nat) (cell_ln: bool)
      (cell_align: string) (cell_fill: bool)
  | Ln nat

type_synonym pdf = "pdf_op list"

text \<open>
  The colour of a summary line:
  \<^verbatim>\<open>(0, 128, 0) if row['value'] >= 0 else (255, 0, 0)\<close> for the balance, black for
  the other metrics.
\<close>

definition metric_color :: "string \<times> float \<Rightarrow> color" where
  "metric_color row =
     (if fst row = ''Balance''
      then (if at_least_zero (snd row) then (0, 128, 0) else (255, 0, 0))
      else (0, 0, 0))"

definition summary_line :: "string \<Rightarrow> string \<times> float \<Rightarrow> string" where
  "summary_line currency row =
     fst row @ '': '' @ format_2f_float (snd row) @ '' '' @ currency"

definition category_line :: "string \<Rightarrow> string \<times> float \<Rightarrow> string" where
  "category_line currency r = fst r @ '': '' @ format_2f_float (snd r) @ '' '' @ currency"

definition add_category_breakdown :: "pdf \<Rightarrow> report_frame \<Rightarrow> string \<Rightarrow> pdf" where
  "add_category_breakdown pdf category_df currency =
     pdf @
     [SetFont ''Arial'' ''B'' 14,
      Cell 0 10 ''Category Breakdown'' 0 True [] False,
      Ln 5,
      SetFont ''Arial'' [] 11] @
     (if category_df = [] then [Cell 0 8 ''No category data available.'' 0 True [] False]
      else map (\<lambda>r. Cell 0 7 (category_line currency r) 0 True [] False) category_df)"

text \<open>
  The four cells of one table row (the body of the loop over \<^verbatim>\<open>df.head(20)\<close>);
  \<^verbatim>\<open>str(r['category'])[:30]\<close> keeps the first 30 characters.
\<close>

definition transaction_cells :: "transaction \<Rightarrow> pdf" where
  "transaction_cells r =
     [Cell 30 7 (isoformat (row_date r)) 1 False [] False,
      Cell 25 7 (row_type r) 1 False [] False,
      Cell 50 7 (first_chars 30 (row_category r)) 1 False [] False,
      Cell 30 7 (format_2f (row_amount r)) 1 True [] False]"

text \<open>
  Reading a document back: the texts of its cells in order; the cells with the text
  colour each is drawn in (starting from a given colour); and the table, which is the
  cells drawn with a border, a row ending at each cell that breaks the line.
\<close>

fun cell_texts :: "pdf \<Rightarrow> string list" where
  "cell_texts [] = []"
| "cell_texts (Cell w h txt border nl align fill # ops) = txt # cell_texts ops"
| "cell_texts (_ # ops) = cell_texts ops"

fun drawn :: "color \<Rightarrow> pdf \<Rightarrow> (color \<times> string) list" where
  "drawn c [] = []"
| "drawn c (SetTextColor c' # ops) = drawn c' ops"
| "drawn c (Cell w h txt border nl align fill # ops) = (c, txt) # drawn c ops"
| "drawn c (_ # ops) = drawn c ops"

fun table_rows :: "string list \<Rightarrow> pdf \<Rightarrow> string list list" where
  "table_rows cur [] = (if cur = [] then [] else [cur])"
| "table_rows cur (Cell w h txt border nl align fill # ops) =
     (if border = 0 then table_rows cur ops
      else if nl then (cur @ [txt]) # table_rows [] ops
      else table_rows (cur @ [txt]) ops)"
| "table_rows cur (_ # ops) = table_rows cur ops"

fun unbordered :: "pdf_op \<Rightarrow> bool" where
  "unbordered (Cell w h txt border nl align fill) = (border = 0)"
| "unbordered _ = True"

definition transaction_texts :: "transaction \<Rightarrow> string list" where
  "transaction_texts r =
     [isoformat (row_date r), row_type r, first_chars 30 (row_category r),
      format_2f (row_amount r)]"

text \<open>
  \<open>report_calls\<close> is the body of \<^verbatim>\<open>create_pdf_report\<close> up to its last line: the
  calls it makes on the document. The last line,
  \<^verbatim>\<open>return pdf.output(dest='S').encode('latin-1')\<close>, writes the document out with the
  text encoded as Latin-1: it returns the document when every text drawn can be encoded
  and raises \<^verbatim>\<open>UnicodeEncodeError\<close> otherwise.
\<close>

definition report_calls ::
  "dataframe \<Rightarrow> report_frame \<Rightarrow> report_frame \<Rightarrow> string \<Rightarrow> string \<Rightarrow> pdf" where
  "report_calls df summary_df category_df period_name currency =
     (let pdf = [SetAutoPageBreak True 15, AddPage];
          pdf = pdf @
            [SetFont ''Arial'' ''B'' 20,
             SetTextColor (102, 126, 234),
             Cell 0 15 (''Budget Report - '' @ period_name) 0 True ''C'' False,
             Ln 10];
          pdf = pdf @
            [SetFont ''Arial'' ''B'' 14,
             SetTextColor (0, 0, 0),
             Cell 0 10 ''Financial Summary'' 0 True [] False,
             Ln 5];
          pdf = pdf @ [SetFont ''Arial'' [] 12];
          pdf = pdf @
            concat (map (\<lambda>row. [SetTextColor (metric_color row),
                                 Cell 0 8 (summary_line currency row) 0 True [] False])
                     summary_df);
          pdf = pdf @ [Ln 10, SetTextColor (0, 0, 0)];
          pdf = add_category_breakdown pdf category_df currency;
          pdf = pdf @
            [AddPage,
             SetFont ''Arial'' ''B'' 14,
             Cell 0 10 ''Recent Transactions'' 0 True [] False,
             Ln 5];
          pdf = pdf @
            (if df = [] then [Cell 0 8 ''No transactions to show.'' 0 True [] False]
             else
               [SetFillColor (102, 126, 234),
                SetTextColor (255, 255, 255),
                Cell 30 8 ''Date'' 1 False [] True,
                Cell 25 8 ''Type'' 1 False [] True,
                Cell 50 8 ''Category'' 1 False [] True,
                Cell 30 8 (''Amount ('' @ currency @ '')'') 1 True [] True,
                SetTextColor (0, 0, 0)] @
               concat (map transaction_cells (take 20 df)))
      in pdf)"

definition output_latin1 :: "pdf \<Rightarrow> py_error + pdf" where
  "output_latin1 pdf =
     (if list_all latin1 (cell_texts pdf) then Inr pdf else Inl UnicodeEncodeError)"

definition create_pdf_report ::
  "dataframe \<Rightarrow> report_frame \<Rightarrow> report_frame \<Rightarrow> string \<Rightarrow> string \<Rightarrow> py_error + pdf" where
  "create_pdf_report df summary_df category_df period_name currency =
     output_latin1 (report_calls df summary_df category_df period_name currency)"

text \<open>
  The texts of a report can all be encoded exactly when the labels passed in and the
  texts taken from the rows can.
\<close>

definition encodable ::
  "dataframe \<Rightarrow> report_frame \<Rightarrow> report_frame \<Rightarrow> string \<Rightarrow> string \<Rightarrow> bool" where
  "encodable df summary_df category_df period_name currency =
     (latin1 period_name \<and>
      list_all (\<lambda>row. latin1 (fst row) \<and> latin1 currency) summary_df \<and>
      list_all (\<lambda>r. latin1 (fst r) \<and> latin1 currency) category_df \<and>
      (df = [] \<or> latin1 currency) \<and>
      list_all (\<lambda>r. latin1 (row_type r) \<and> latin1 (first_chars 30 (row_category r)))
        (take 20 df))"

section \<open>The store\<close>

text \<open>
  The database table is the list of its rows in insertion order. The key
  \<^verbatim>\<open>id INTEGER PRIMARY KEY AUTOINCREMENT\<close> is a signed 64-bit integer; the key of
  a new row is one more than the largest key used so far (rows are never deleted) and
  at least 1, and once the largest key \<open>2^63 - 1\<close> is in use the insert fails (the
  database reports it is full, an \<^verbatim>\<open>OperationalError\<close>).
  \<^verbatim>\<open>load_transactions\<close> reads the rows
  \<^verbatim>\<open>ORDER BY date DESC, id DESC\<close>.
\<close>

type_synonym db = "transaction list"

datatype insert_failure = IntegrityError | OperationalError | OutsideModel

definition max_rowid :: int where
  "max_rowid = 2 ^ 63 - 1"

definition next_id :: "db \<Rightarrow> insert_failure + int" where
  "next_id db =
     (let largest = fold max (map row_id db) 0
      in if max_rowid \<le> largest then Inl OperationalError else Inr (largest + 1))"

definition add_transaction ::
  "string \<Rightarrow> string \<Rightarrow> real \<Rightarrow> string \<Rightarrow> date \<Rightarrow> string \<Rightarrow> db \<Rightarrow> insert_failure + db" where
  "add_transaction tx_type category amount currency tx_date notes db =
     (case next_id db of
        Inl e \<Rightarrow> Inl e
      | Inr i \<Rightarrow>
          Inr (db @ [\<lparr>row_id = i, row_type = tx_type, row_category = category,
                       row_amount = amount, row_currency = currency, row_date = tx_date,
                       row_notes = Some notes\<rparr>]))"

definition load_transactions :: "db \<Rightarrow> dataframe" where
  "load_transactions db =
     rev (sort_key
       (\<lambda>t. ((d_year (row_date t), d_month (row_date t), d_day (row_date t)), row_id t)) db)"

text \<open>Row \<open>a\<close> may stand before row \<open>b\<close>: later date first, then larger id first.\<close>

definition newer_first :: "transaction \<Rightarrow> transaction \<Rightarrow> bool" where
  "newer_first a b =
     (let ka = (d_year (row_date a), d_month (row_date a), d_day (row_date a));
          kb = (d_year (row_date b), d_month (row_date b), d_day (row_date b))
      in kb < ka \<or> (kb = ka \<and> row_id b \<le> row_id a))"

text \<open>
  The sidebar form (the block under \<^verbatim>\<open>st.form("transaction_form")\<close>): on submit
  it stores the transaction when \<^verbatim>\<open>amount > 0\<close>, with the category
  \<^verbatim>\<open>category.strip() or "General"\<close>, and shows an error otherwise. An exception
  of the insert is not caught.
\<close>

datatype form_result = Stored db | Refused string | Raised insert_failure

definition sidebar_form_submitted ::
  "string \<Rightarrow> string \<Rightarrow> real \<Rightarrow> string \<Rightarrow> date \<Rightarrow> string \<Rightarrow> db \<Rightarrow> form_result" where
  "sidebar_form_submitted tx_type category amount currency tx_date notes db =
     (if amount > 0 then
        (case add_transaction tx_type
                (if strip category = [] then ''General'' else strip category)
                amount currency tx_date notes db of
           Inl e \<Rightarrow> Raised e
         | Inr db' \<Rightarrow> Stored db')
      else Refused ''Please enter a valid amount greater than 0.'')"

text \<open>The invariant of the data model: what a stored transaction should satisfy.\<close>

definition valid_transaction :: "transaction \<Rightarrow> bool" where
  "valid_transaction t =
     (0 \<le> row_amount t \<and> (row_type t = ''income'' \<or> row_type t = ''expense'') \<and>
      row_category t \<noteq> [])"

section \<open>Import\<close>

text \<open>
  An uploaded file is decoded by the data-frame library into a table of named columns
  whose cells are numbers, text, dates or missing values. The library is a parameter of
  the model: its two readers return a table or raise (\<open>Inl\<close> carries the exception's
  message), and its two coercions return the coerced column or raise (\<open>None\<close>).
  \<open>to_datetime\<close> stands for \<^verbatim>\<open>pd.to_datetime(...).dt.date\<close>: the time of day is
  dropped, a missing value stays missing.
\<close>

datatype cell = Num real | Str string | DateV date | Null

record frame =
  columns :: "string list"
  records :: "cell list list"

record 'f uploaded_file =
  name :: string
  content :: 'f

record 'f pandas =
  read_csv :: "'f \<Rightarrow> string + frame"
  read_excel :: "'f \<Rightarrow> string + frame"
  to_numeric :: "cell list \<Rightarrow> real option list option"
  to_datetime :: "cell list \<Rightarrow> date option list option"

definition column :: "frame \<Rightarrow> string \<Rightarrow> cell list" where
  "column df c =
     map (\<lambda>r. case map_of (zip (columns df) r) c of Some v \<Rightarrow> v | None \<Rightarrow> Null) (records df)"

definition set_column :: "frame \<Rightarrow> string \<Rightarrow> cell list \<Rightarrow> frame" where
  "set_column df c vs =
     df\<lparr>records :=
          map (\<lambda>(r, v). map (\<lambda>(n, x). if n = c then v else x) (zip (columns df) r))
            (zip (records df) vs)\<rparr>"

definition required_cols :: "string list" where
  "required_cols = [''type'', ''category'', ''amount'', ''currency'', ''date'']"

definition missing_cols :: "frame \<Rightarrow> string list" where
  "missing_cols df = filter (\<lambda>col. col \<notin> set (columns df)) required_cols"

fun join :: "string \<Rightarrow> string list \<Rightarrow> string" where
  "join sep [] = []"
| "join sep [x] = x"
| "join sep (x # y # ys) = x @ sep @ join sep (y # ys)"

text \<open>
  \<open>validate_frame\<close> is the part of \<^verbatim>\<open>process_uploaded_file\<close> after the file has
  been read: the check of the required columns and the two coercions inside the inner
  \<^verbatim>\<open>try\<close>, whose bare \<^verbatim>\<open>except\<close> turns any failure into one fixed message.
\<close>

definition validate_frame :: "'f pandas \<Rightarrow> frame \<Rightarrow> frame option \<times> string" where
  "validate_frame pd df =
     (if missing_cols df \<noteq> [] then
        (None, ''Missing required columns: '' @ join '', '' (missing_cols df))
      else
        case to_numeric pd (column df ''amount'') of
          None \<Rightarrow> (None, ''Invalid data types in amount or date columns'')
        | Some amounts \<Rightarrow>
            (case to_datetime pd (column df ''date'') of
               None \<Rightarrow> (None, ''Invalid data types in amount or date columns'')
             | Some dates \<Rightarrow>
                 (Some (set_column
                          (set_column df ''amount'' (map (case_option Null Num) amounts))
                          ''date'' (map (case_option Null DateV) dates)),
                  ''File processed successfully!'')))"

definition process_uploaded_file ::
  "'f pandas \<Rightarrow> 'f uploaded_file \<Rightarrow> frame option \<times> string" where
  "process_uploaded_file pd uploaded_file =
     (if suffix ''.csv'' (name uploaded_file) then
        (case read_csv pd (content uploaded_file) of
           Inl e \<Rightarrow> (None, ''Error processing file: '' @ e)
         | Inr df \<Rightarrow> validate_frame pd df)
      else if suffix ''.xlsx'' (name uploaded_file) then
        (case read_excel pd (content uploaded_file) of
           Inl e \<Rightarrow> (None, ''Error processing file: '' @ e)
         | Inr df \<Rightarrow> validate_frame pd df)
      else (None, ''Unsupported file format. Please upload CSV or Excel file.''))"

text \<open>The file has a supported name and the library reads it as the table \<open>df\<close>.\<close>

definition decoded :: "'f pandas \<Rightarrow> 'f uploaded_file \<Rightarrow> frame \<Rightarrow> bool" where
  "decoded pd uploaded_file df =
     ((suffix ''.csv'' (name uploaded_file) \<and> read_csv pd (content uploaded_file) = Inr df) \<or>
      (\<not> suffix ''.csv'' (name uploaded_file) \<and> suffix ''.xlsx'' (name uploaded_file) \<and>
       read_excel pd (content uploaded_file) = Inr df))"

subsection \<open>Bulk insert\<close>

text \<open>
  \<^verbatim>\<open>bulk_insert_transactions\<close> appends the rows of a table to the database table
  (\<^verbatim>\<open>to_sql(..., if_exists='append', index=False)\<close>), all of them or, when the
  database raises, none. A column the database table does not have is an
  \<^verbatim>\<open>OperationalError\<close>; a missing value in a \<^verbatim>\<open>NOT NULL\<close> column, a key that
  is not a whole number of 64 bits and a key already in use are an
  \<^verbatim>\<open>IntegrityError\<close>. A date in a text column is stored as its ISO text. The
  database would also take a number for a text column and text for the amount, the
  date or the key; the typed rows of this model cannot hold those, and
  \<open>OutsideModel\<close> marks such tables: nothing below is about them.
\<close>

definition table_columns :: "string list" where
  "table_columns = [''id'', ''type'', ''category'', ''amount'', ''currency'', ''date'', ''notes'']"

fun sql_text :: "cell \<Rightarrow> insert_failure + string" where
  "sql_text (Str s) = Inr s"
| "sql_text (DateV d) = Inr (isoformat d)"
| "sql_text (Num r) = Inl OutsideModel"
| "sql_text Null = Inl IntegrityError"

fun sql_notes :: "cell \<Rightarrow> insert_failure + string option" where
  "sql_notes Null = Inr None"
| "sql_notes c = map_sum id Some (sql_text c)"

fun sql_real :: "cell \<Rightarrow> insert_failure + real" where
  "sql_real (Num r) = Inr r"
| "sql_real Null = Inl IntegrityError"
| "sql_real _ = Inl OutsideModel"

fun sql_date :: "cell \<Rightarrow> insert_failure + date" where
  "sql_date (DateV d) = Inr d"
| "sql_date Null = Inl IntegrityError"
| "sql_date _ = Inl OutsideModel"

fun sql_id :: "db \<Rightarrow> cell \<Rightarrow> insert_failure + int" where
  "sql_id db Null = next_id db"
| "sql_id db (Num r) =
     (if r = of_int \<lfloor>r\<rfloor> \<and> - max_rowid - 1 \<le> \<lfloor>r\<rfloor> \<and> \<lfloor>r\<rfloor> \<le> max_rowid \<and>
         \<lfloor>r\<rfloor> \<notin> set (map row_id db)
      then Inr \<lfloor>r\<rfloor>
      else Inl IntegrityError)"
| "sql_id db (DateV d) = Inl IntegrityError"
| "sql_id db (Str s) = Inl OutsideModel"

definition then_sql ::
  "insert_failure + 'a \<Rightarrow> ('a \<Rightarrow> insert_failure + 'b) \<Rightarrow> insert_failure + 'b" where
  "then_sql r f = (case r of Inl e \<Rightarrow> Inl e | Inr v \<Rightarrow> f v)"

definition insert_row :: "string list \<Rightarrow> cell list \<Rightarrow> db \<Rightarrow> insert_failure + db" where
  "insert_row cols r db =
     (let v = (\<lambda>c. case map_of (zip cols r) c of Some x \<Rightarrow> x | None \<Rightarrow> Null)
      in then_sql (sql_id db (v ''id'')) (\<lambda>i.
         then_sql (sql_text (v ''type'')) (\<lambda>t.
         then_sql (sql_text (v ''category'')) (\<lambda>c.
         then_sql (sql_real (v ''amount'')) (\<lambda>a.
         then_sql (sql_text (v ''currency'')) (\<lambda>cur.
         then_sql (sql_date (v ''date'')) (\<lambda>d.
         then_sql (sql_notes (v ''notes'')) (\<lambda>n.
           Inr (db @ [\<lparr>row_id = i, row_type = t, row_category = c, row_amount = a,
                       row_currency = cur, row_date = d, row_notes = n\<rparr>])))))))))"

fun insert_rows :: "string list \<Rightarrow> cell list list \<Rightarrow> db \<Rightarrow> insert_failure + db" where
  "insert_rows cols [] db = Inr db"
| "insert_rows cols (r # rs) db = then_sql (insert_row cols r db) (insert_rows cols rs)"

definition bulk_insert_transactions :: "frame \<Rightarrow> db \<Rightarrow> insert_failure + db" where
  "bulk_insert_transactions transactions_df db =
     (if list_all (\<lambda>c. c \<in> set table_columns) (columns transactions_df)
      then insert_rows (columns transactions_df) (records transactions_df) db
      else Inl OperationalError)"

subsection \<open>Spreadsheet export\<close>







fun number_cell :: "cell \<Rightarrow> bool" where
  "number_cell (Num r) = True"
| "number_cell Null = True"
| "number_cell _ = False"

fun date_cell :: "cell \<Rightarrow> bool" where
  "date_cell (DateV d) = True"
| "date_cell Null = True"
| "date_cell _ = False"




section \<open>Sample data\<close>

text \<open>The rows of the specification's scenario, and a fourth that ties with the third.\<close>

definition salary :: transaction where
  "salary = \<lparr>row_id = 1, row_type = ''income'', row_category = ''Salary'', row_amount = 50000,
             row_currency = ''PKR'', row_date = Date 2024 1 5, row_notes = None\<rparr>"

definition rent :: transaction where
  "rent = \<lparr>row_id = 2, row_type = ''expense'', row_category = ''Rent'', row_amount = 15000,
           row_currency = ''PKR'', row_date = Date 2024 1 10, row_notes = None\<rparr>"

definition groceries :: transaction where
  "groceries = \<lparr>row_id = 3, row_type = ''expense'', row_category = ''Groceries'',
                row_amount = 8000, row_currency = ''PKR'', row_date = Date 2024 2 1,
                row_notes = None\<rparr>"

definition utilities :: transaction where
  "utilities = \<lparr>row_id = 4, row_type = ''expense'', row_category = ''Utilities'',
                row_amount = 8000, row_currency = ''PKR'', row_date = Date 2024 2 3,
                row_notes = None\<rparr>"


definition euro :: string where
  "euro = [CHR 0xE2, CHR 0x82, CHR 0xAC]"

definition food_euro :: transaction where
  "food_euro = \<lparr>row_id = 5, row_type = ''expense'', row_category = ''Food '' @ euro,
                row_amount = 12, row_currency = ''PKR'', row_date = Date 2024 3 2,
                row_notes = None\<rparr>"

definition cafe :: transaction where
  "cafe = \<lparr>row_id = 7, row_type = ''expense'',
            row_category = ''Caf'' @ [CHR 0xC3, CHR 0xA9] @ '' du Commerce, rue de la Gare 12'',
            row_amount = 42.5, row_currency = ''EUR'', row_date = Date 2024 3 9,
            row_notes = None\<rparr>"


text \<open>
  A stand-in for the data-frame library in the concrete instances: a file's content is
  the table it decodes to, and a column is coerced exactly when its cells already are
  numbers (or dates) or missing. The library itself also reads numbers and dates out of
  text; the instances below have no such column.
\<close>

definition typed_columns_only :: "frame pandas" where
  "typed_columns_only =
     \<lparr>read_csv = Inr,
      read_excel = Inr,
      to_numeric = (\<lambda>cells. if list_all number_cell cells
                      then Some (map (\<lambda>c. case c of Num r \<Rightarrow> Some r | _ \<Rightarrow> None) cells)
                      else None),
      to_datetime = (\<lambda>cells. if list_all date_cell cells
                      then Some (map (\<lambda>c. case c of DateV d \<Rightarrow> Some d | _ \<Rightarrow> None) cells)
                      else None)\<rparr>"


definition upload_missing_two :: "frame uploaded_file" where
  "upload_missing_two =
     \<lparr>name = ''january.csv'',
      content = \<lparr>columns = [''date'', ''type'', ''category'', ''notes''],
                 records = [[Str ''2024-01-05'', Str ''income'', Str ''Salary'', Null]]\<rparr>\<rparr>"

definition upload_missing_one :: "frame uploaded_file" where
  "upload_missing_one =
     \<lparr>name = ''january.xlsx'',
      content = \<lparr>columns = [''type'', ''category'', ''amount'', ''currency''],
                 records = [[Str ''income'', Str ''Salary'', Num 50000, Str ''PKR'']]\<rparr>\<rparr>"

definition upload_missing_all :: "frame uploaded_file" where
  "upload_missing_all =
     \<lparr>name = ''january.csv'', content = \<lparr>columns = [''Amount''], records = [[Num 5]]\<rparr>\<rparr>"

definition upload_abc :: "frame uploaded_file" where
  "upload_abc =
     \<lparr>name = ''january.csv'',
      content = \<lparr>columns = [''type'', ''category'', ''amount'', ''currency'', ''date''],
                 records = [[Str ''income'', Str ''Salary'', Str ''abc'', Str ''PKR'',
                             DateV (Date 2024 1 5)]]\<rparr>\<rparr>"

definition refund_frame :: frame where
  "refund_frame =
     \<lparr>columns = [''type'', ''category'', ''amount'', ''currency'', ''date''],
      records = [[Str ''refund'', Str ''Misc'', Num (- 5), Str ''PKR'', DateV (Date 2024 1 5)]]\<rparr>"

definition refund_upload :: "frame uploaded_file" where
  "refund_upload = \<lparr>name = ''refunds.xlsx'', content = refund_frame\<rparr>"

definition refund_row :: transaction where
  "refund_row = \<lparr>row_id = 1, row_type = ''refund'', row_category = ''Misc'', row_amount = - 5,
                  row_currency = ''PKR'', row_date = Date 2024 1 5, row_notes = None\<rparr>"

section \<open>Properties of the summary\<close>

text \<open>
  C1 (as stated): the summary of the empty transaction set is the all-zero summary.
  The code returns the empty table there (its first two lines), so the claim as stated
  fails on the empty input.
\<close>

theorem monthly_summary_empty_not_zero:
  "monthly_summary [] None None \<noteq> zero_summary"
  by (simp add: monthly_summary_def zero_summary_def)

text \<open>
  C1 (amended): for the empty transaction set \<^const>\<open>monthly_summary\<close> returns the
  empty summary table (no metric rows, and no error); for every non-empty input whose
  filtered set is empty it returns the all-zero summary.
\<close>

theorem monthly_summary_empty_input_or_filter:
  "(df = [] \<longrightarrow> monthly_summary df year month = []) \<and>
   (df \<noteq> [] \<and> filter_period df year month = [] \<longrightarrow>
      monthly_summary df year month = zero_summary)"
  by (simp add: monthly_summary_def zero_summary_def Let_def)

text \<open>
  An instance of C1 (amended): one January 2024 row filtered by the year 2023 gives the
  zeros; the empty table gives the empty summary.
\<close>

theorem monthly_summary_empty_input_or_filter_witness:
  "[salary] \<noteq> [] \<and> filter_period [salary] (Some 2023) None = [] \<and>
   monthly_summary [salary] (Some 2023) None = zero_summary \<and>
   monthly_summary [] (Some 2023) None = []"
  using monthly_summary_empty_input_or_filter [of "[salary]" "Some 2023" None]
    monthly_summary_empty_input_or_filter [of "[]" "Some 2023" None]
  by (simp add: filter_period_def salary_def)




section \<open>Properties of the category breakdown\<close>








text \<open>
  On a few rows the default kind of sort is the stable order (no segment is long enough
  to be partitioned): for the rows of the scenario the tie of Groceries and Utilities
  comes out in the order of the names.
\<close>

lemma category_breakdown_few_rows:
  "category_breakdown quicksort_argsort [salary, rent, groceries, utilities]
     (Some 2024) None ''expense'' =
     [(''Rent'', 15000), (''Groceries'', 8000), (''Utilities'', 8000)]"
  by code_simp




section \<open>Properties of the PDF report\<close>

subsection \<open>The text of a report\<close>

lemma cell_texts_append: "cell_texts (xs @ ys) = cell_texts xs @ cell_texts ys"
  by (induction xs rule: cell_texts.induct) simp_all

lemma cell_texts_summary:
  "cell_texts (concat (map (\<lambda>row. [SetTextColor (f row), Cell 0 8 (g row) 0 True [] False]) xs))
     = map g xs"
  by (induction xs) simp_all

lemma cell_texts_category:
  "cell_texts (map (\<lambda>r. Cell 0 7 (g r) 0 True [] False) xs) = map g xs"
  by (induction xs) simp_all

lemma cell_texts_transactions:
  "cell_texts (concat (map transaction_cells rs)) = concat (map transaction_texts rs)"
  by (induction rs) (simp_all add: transaction_cells_def transaction_texts_def cell_texts_append)

lemma cell_texts_report_calls:
  "cell_texts (report_calls df summary_df category_df period_name currency) =
     [''Budget Report - '' @ period_name, ''Financial Summary''] @
     map (summary_line currency) summary_df @
     [''Category Breakdown''] @
     (if category_df = [] then [''No category data available.'']
      else map (category_line currency) category_df) @
     [''Recent Transactions''] @
     (if df = [] then [''No transactions to show.'']
      else [''Date'', ''Type'', ''Category'', ''Amount ('' @ currency @ '')''] @
           concat (map transaction_texts (take 20 df)))"
  by (simp add: report_calls_def add_category_breakdown_def cell_texts_append
      cell_texts_summary cell_texts_category cell_texts_transactions)

subsection \<open>Which texts can be encoded\<close>

lemma latin1_Nil: "latin1 []"
  by (simp add: latin1_def)

lemma latin1_Cons: "latin1 (c # cs) = ((of_char c :: nat) < 196 \<and> latin1 cs)"
  by (simp add: latin1_def)

lemma latin1_append: "latin1 (xs @ ys) = (latin1 xs \<and> latin1 ys)"
  by (simp add: latin1_def)

lemmas latin1_simps = latin1_Nil latin1_Cons latin1_append

lemma latin1_digit_char: "(of_char (digit_char n) :: nat) < 196"
proof -
  have "digit_char n \<in> set ''0123456789''"
    unfolding digit_char_def by (rule nth_mem) simp
  moreover have "\<forall>c \<in> set ''0123456789''. (of_char c :: nat) < 196" by simp
  ultimately show ?thesis by blast
qed

lemma latin1_digits: "latin1 (digits n)"
proof (induction n rule: digits.induct)
  case (1 n)
  show ?case
  proof (cases "n < 10")
    case True
    then show ?thesis by (subst digits.simps) (simp add: latin1_simps latin1_digit_char)
  next
    case False
    with "1" have "latin1 (digits (n div 10))" by simp
    with False show ?thesis
      by (subst digits.simps) (simp add: latin1_simps latin1_digit_char)
  qed
qed

lemma latin1_zfill: "latin1 s \<Longrightarrow> latin1 (zfill width s)"
  by (auto simp: zfill_def latin1_def list_all_iff)

lemma latin1_isoformat: "latin1 (isoformat d)"
  by (simp add: isoformat_def latin1_simps latin1_zfill latin1_digits)

lemma latin1_format_2f: "latin1 (format_2f x)"
  by (simp add: format_2f_def Let_def latin1_simps latin1_digits latin1_digit_char)

lemma latin1_format_2f_float: "latin1 (format_2f_float v)"
  by (cases v) (simp_all add: latin1_format_2f latin1_simps)

lemma latin1_summary_line:
  "latin1 (summary_line currency row) = (latin1 (fst row) \<and> latin1 currency)"
  by (simp add: summary_line_def latin1_simps latin1_format_2f_float)

lemma latin1_category_line:
  "latin1 (category_line currency r) = (latin1 (fst r) \<and> latin1 currency)"
  by (simp add: category_line_def latin1_simps latin1_format_2f_float)

lemma latin1_transaction_texts:
  "list_all latin1 (concat (map transaction_texts rs)) =
     list_all (\<lambda>r. latin1 (row_type r) \<and> latin1 (first_chars 30 (row_category r))) rs"
  by (induction rs)
    (simp_all add: transaction_texts_def latin1_isoformat latin1_format_2f)

lemma report_calls_encodable:
  "list_all latin1 (cell_texts (report_calls df summary_df category_df period_name currency)) =
     encodable df summary_df category_df period_name currency"
proof -
  have fixed: "latin1 ''Budget Report - ''" "latin1 ''Financial Summary''"
    "latin1 ''Category Breakdown''" "latin1 ''No category data available.''"
    "latin1 ''Recent Transactions''" "latin1 ''No transactions to show.''"
    "latin1 ''Date''" "latin1 ''Type''" "latin1 ''Category''" "latin1 ''Amount (''"
    "latin1 '')''"
    by (simp_all add: latin1_def)
  have s: "list_all latin1 (map (summary_line currency) summary_df) =
             list_all (\<lambda>row. latin1 (fst row) \<and> latin1 currency) summary_df"
    by (simp add: list_all_iff latin1_summary_line)
  have c: "list_all latin1 (map (category_line currency) category_df) =
             list_all (\<lambda>r. latin1 (fst r) \<and> latin1 currency) category_df"
    by (simp add: list_all_iff latin1_category_line)
  have h: "latin1 (''Amount ('' @ currency @ '')'') = latin1 currency"
    using fixed by (simp only: latin1_append) simp
  have t: "latin1 (''Budget Report - '' @ period_name) = latin1 period_name"
    using fixed by (simp only: latin1_append) simp
  show ?thesis
    unfolding cell_texts_report_calls encodable_def
    using fixed s c h t latin1_transaction_texts [of "take 20 df"]
    by (cases "df = []"; cases "category_df = []") (simp_all del: append.simps list.map)
qed

lemma create_pdf_report_result:
  "create_pdf_report df summary_df category_df period_name currency =
     (if encodable df summary_df category_df period_name currency
      then Inr (report_calls df summary_df category_df period_name currency)
      else Inl UnicodeEncodeError)"
  by (simp add: create_pdf_report_def output_latin1_def report_calls_encodable)

subsection \<open>The table of a report\<close>

lemma table_rows_unbordered:
  "list_all unbordered xs \<Longrightarrow> table_rows cur (xs @ ys) = table_rows cur ys"
proof (induction xs)
  case Nil
  then show ?case by simp
next
  case (Cons x xs)
  then show ?case by (cases x) simp_all
qed

lemma unbordered_summary:
  "list_all unbordered
     (concat (map (\<lambda>row. [SetTextColor (f row), Cell 0 8 (g row) 0 True [] False]) xs))"
  by (induction xs) simp_all

lemma unbordered_category:
  "list_all unbordered (map (\<lambda>r. Cell 0 7 (g r) 0 True [] False) xs)"
  by (induction xs) simp_all

lemma table_rows_transactions:
  "table_rows [] (concat (map transaction_cells rs)) = map transaction_texts rs"
  by (induction rs) (simp_all add: transaction_cells_def transaction_texts_def)

lemma table_rows_skip_summary:
  "table_rows cur
     (concat (map (\<lambda>row. [SetTextColor (metric_color row),
                Cell 0 8 (summary_line currency row) 0 True [] False]) summary_df) @ ys)
   = table_rows cur ys"
  by (rule table_rows_unbordered [OF unbordered_summary])

lemma table_rows_skip_category:
  "table_rows cur
     (map (\<lambda>r. Cell 0 7 (category_line currency r) 0 True [] False) category_df @ ys)
   = table_rows cur ys"
  by (rule table_rows_unbordered [OF unbordered_category])

lemma table_rows_report_calls:
  "table_rows [] (report_calls df summary_df category_df period_name currency) =
     (if df = [] then []
      else [''Date'', ''Type'', ''Category'', ''Amount ('' @ currency @ '')''] #
           map transaction_texts (take 20 df))"
  by (simp add: report_calls_def add_category_breakdown_def table_rows_skip_summary
      table_rows_skip_category table_rows_transactions)

lemma drawn_summary:
  "drawn c (concat (map (\<lambda>row. [SetTextColor (f row), Cell 0 8 (g row) 0 True [] False]) xs)
            @ rest) =
     map (\<lambda>row. (f row, g row)) xs @ drawn (if xs = [] then c else f (last xs)) rest"
  by (induction xs arbitrary: c) simp_all

lemma drawn_report_calls:
  "i < length summary_df \<Longrightarrow>
   drawn (0, 0, 0) (report_calls df summary_df category_df period_name currency) ! (i + 2) =
     (metric_color (summary_df ! i), summary_line currency (summary_df ! i))"
  by (simp add: report_calls_def add_category_breakdown_def drawn_summary nth_append)

lemma load_transactions_sorted: "sorted_wrt newer_first (load_transactions db)"
proof -
  let ?k = "\<lambda>t. ((d_year (row_date t), d_month (row_date t), d_day (row_date t)), row_id t)"
  have "sorted (map ?k (sort_key ?k db))" by (rule sorted_sort_key)
  then have "sorted_wrt (\<lambda>a b. ?k a \<le> ?k b) (sort_key ?k db)"
    by (simp add: sorted_map)
  then have "sorted_wrt (\<lambda>a b. ?k b \<le> ?k a) (rev (sort_key ?k db))"
    by (simp add: sorted_wrt_rev)
  moreover have "?k b \<le> ?k a \<Longrightarrow> newer_first a b" for a b
    by (auto simp: newer_first_def less_eq_prod_def)
  ultimately show ?thesis
    unfolding load_transactions_def by (rule sorted_wrt_mono_rel [rotated]) simp
qed

lemma load_transactions_mset: "mset (load_transactions db) = mset db"
  by (simp add: load_transactions_def)

subsection \<open>The claims\<close>

text \<open>
  C6 (as stated): on an empty transaction set and an empty category breakdown the
  rendering never throws and returns a document. The last line of the function encodes
  the document as Latin-1, which raises for a label outside that character set: with the
  period name "Q1" followed by the euro sign (U+20AC) no document is returned.
\<close>

theorem empty_report_raises_outside_latin1:
  "create_pdf_report [] [] [] (''Q1 '' @ euro) ''PKR'' = Inl UnicodeEncodeError"
  by (simp add: create_pdf_report_result encodable_def latin1_def euro_def)

text \<open>
  C6 (amended): with an empty transaction set and an empty category breakdown,
  \<^const>\<open>create_pdf_report\<close> returns a document exactly when the period name, the
  metric names of the summary and (if the summary has a line) the currency label can be
  encoded as Latin-1, and raises \<^verbatim>\<open>UnicodeEncodeError\<close> otherwise. The document's
  text is the title, the summary heading and lines, then the category heading with the
  line "No category data available.", and the transactions heading with the line
  "No transactions to show."; it has no table.
\<close>

theorem create_pdf_report_empty:
  "create_pdf_report [] summary_df [] period_name currency =
     (if latin1 period_name \<and>
         list_all (\<lambda>row. latin1 (fst row) \<and> latin1 currency) summary_df
      then Inr (report_calls [] summary_df [] period_name currency)
      else Inl UnicodeEncodeError) \<and>
   cell_texts (report_calls [] summary_df [] period_name currency) =
     [''Budget Report - '' @ period_name, ''Financial Summary''] @
     map (summary_line currency) summary_df @
     [''Category Breakdown'', ''No category data available.'',
      ''Recent Transactions'', ''No transactions to show.''] \<and>
   table_rows [] (report_calls [] summary_df [] period_name currency) = []"
  by (simp add: create_pdf_report_result encodable_def cell_texts_report_calls
      table_rows_report_calls)

text \<open>
  An instance of C6 (amended): with the default period name and currency and no rows at
  all, the document is returned and holds the title, the three headings and the two
  placeholder lines.
\<close>

theorem create_pdf_report_empty_witness:
  "create_pdf_report [] [] [] ''All time'' ''PKR'' =
     Inr (report_calls [] [] [] ''All time'' ''PKR'') \<and>
   cell_texts (report_calls [] [] [] ''All time'' ''PKR'') =
     [''Budget Report - All time'', ''Financial Summary'', ''Category Breakdown'',
      ''No category data available.'', ''Recent Transactions'',
      ''No transactions to show.'']"
  using create_pdf_report_empty [of "[]" "''All time''" "''PKR''"]
  by (simp add: latin1_def)

text \<open>
  C7 (as stated): for every non-empty transaction set the table has the headers Date,
  Type, Category, Amount and the first 20 rows. Two things differ in the code. The
  fourth header cell carries the currency label: for one row and the currency PKR the
  table is the header row Date, Type, Category, "Amount (PKR)" and the row itself. And a
  row whose category is outside Latin-1, here "Food" with the euro sign, makes the
  function raise: there is no document and no table.
\<close>

theorem create_pdf_report_amount_header:
  "create_pdf_report [salary] [] [] ''All time'' ''PKR'' =
     Inr (report_calls [salary] [] [] ''All time'' ''PKR'') \<and>
   table_rows [] (report_calls [salary] [] [] ''All time'' ''PKR'') =
     [[''Date'', ''Type'', ''Category'', ''Amount (PKR)''],
      [''2024-01-05'', ''income'', ''Salary'', ''50000.00'']] \<and>
   hd (table_rows [] (report_calls [salary] [] [] ''All time'' ''PKR'')) \<noteq>
     [''Date'', ''Type'', ''Category'', ''Amount''] \<and>
   create_pdf_report [food_euro] [] [] ''All time'' ''PKR'' = Inl UnicodeEncodeError"
proof -
  have s: "first_chars 30 ''Salary'' = ''Salary''"
    by (simp add: first_chars_def continuation_def)
  have f: "\<not> latin1 (first_chars 30 (row_category food_euro))"
    by (simp add: food_euro_def first_chars_def continuation_def euro_def latin1_def)
  have "create_pdf_report [salary] [] [] ''All time'' ''PKR'' =
     Inr (report_calls [salary] [] [] ''All time'' ''PKR'')"
    by (simp add: create_pdf_report_result encodable_def salary_def s) (simp add: latin1_def)
  moreover have "table_rows [] (report_calls [salary] [] [] ''All time'' ''PKR'') =
     [[''Date'', ''Type'', ''Category'', ''Amount (PKR)''],
      [''2024-01-05'', ''income'', ''Salary'', ''50000.00'']]"
    by (simp add: table_rows_report_calls transaction_texts_def salary_def s isoformat_def
        zfill_def digits.simps digit_char_def format_2f_def round_half_even_def)
  moreover have "create_pdf_report [food_euro] [] [] ''All time'' ''PKR'' =
     Inl UnicodeEncodeError"
    using f by (simp add: create_pdf_report_result encodable_def)
  ultimately show ?thesis by simp
qed

text \<open>
  C7 (amended): for every non-empty transaction set, \<^const>\<open>create_pdf_report\<close>
  returns a document exactly when every text it draws can be encoded as Latin-1 (the
  period name, the currency label, the metric and category names, and the type and the
  first 30 characters of the category of each of the first 20 rows), and raises
  \<^verbatim>\<open>UnicodeEncodeError\<close> otherwise. The table of the document is the header row
  Date, Type, Category, "Amount (<currency label>)" followed by exactly the first 20
  rows of the input in the input's order, each as date, type, category cut to its first
  30 characters, and amount with two decimals; rows beyond the 20th are left out. The
  input's order is that of \<^const>\<open>load_transactions\<close>, which returns the stored rows
  by date descending, then id descending.
\<close>

theorem create_pdf_report_table:
  assumes "df \<noteq> []"
  shows "create_pdf_report df summary_df category_df period_name currency =
           (if latin1 period_name \<and> latin1 currency \<and>
               list_all (\<lambda>row. latin1 (fst row)) summary_df \<and>
               list_all (\<lambda>r. latin1 (fst r)) category_df \<and>
               list_all (\<lambda>r. latin1 (row_type r) \<and> latin1 (first_chars 30 (row_category r)))
                 (take 20 df)
            then Inr (report_calls df summary_df category_df period_name currency)
            else Inl UnicodeEncodeError) \<and>
         table_rows [] (report_calls df summary_df category_df period_name currency) =
           [''Date'', ''Type'', ''Category'', ''Amount ('' @ currency @ '')''] #
           map transaction_texts (take 20 df) \<and>
         sorted_wrt newer_first (load_transactions db) \<and>
         mset (load_transactions db) = mset db"
proof (intro conjI)
  have "encodable df summary_df category_df period_name currency =
          (latin1 period_name \<and> latin1 currency \<and>
           list_all (\<lambda>row. latin1 (fst row)) summary_df \<and>
           list_all (\<lambda>r. latin1 (fst r)) category_df \<and>
           list_all (\<lambda>r. latin1 (row_type r) \<and> latin1 (first_chars 30 (row_category r)))
             (take 20 df))"
    using assms by (auto simp: encodable_def list_all_iff)
  then show "create_pdf_report df summary_df category_df period_name currency =
           (if latin1 period_name \<and> latin1 currency \<and>
               list_all (\<lambda>row. latin1 (fst row)) summary_df \<and>
               list_all (\<lambda>r. latin1 (fst r)) category_df \<and>
               list_all (\<lambda>r. latin1 (row_type r) \<and> latin1 (first_chars 30 (row_category r)))
                 (take 20 df)
            then Inr (report_calls df summary_df category_df period_name currency)
            else Inl UnicodeEncodeError)"
    by (simp only: create_pdf_report_result)
  show "table_rows [] (report_calls df summary_df category_df period_name currency) =
           [''Date'', ''Type'', ''Category'', ''Amount ('' @ currency @ '')''] #
           map transaction_texts (take 20 df)"
    using assms by (simp add: table_rows_report_calls)
  show "sorted_wrt newer_first (load_transactions db)"
    by (rule load_transactions_sorted)
  show "mset (load_transactions db) = mset db"
    by (rule load_transactions_mset)
qed

text \<open>
  Instances of C7 (amended): 25 stored rows give a document whose table is the header
  and 20 rows; the two rows of a small store are listed newest first; and a category of
  35 characters is cut after its 30th character, here 31 bytes.
\<close>

theorem create_pdf_report_table_witness:
  "replicate 25 rent \<noteq> [] \<and>
   create_pdf_report (replicate 25 rent) [] [] ''All time'' ''PKR'' =
     Inr (report_calls (replicate 25 rent) [] [] ''All time'' ''PKR'') \<and>
   length (table_rows [] (report_calls (replicate 25 rent) [] [] ''All time'' ''PKR'')) = 21 \<and>
   load_transactions [salary, rent] = [rent, salary] \<and>
   table_rows [] (report_calls (load_transactions [salary, rent]) [] [] ''2024'' ''PKR'') =
     [[''Date'', ''Type'', ''Category'', ''Amount (PKR)''],
      [''2024-01-10'', ''expense'', ''Rent'', ''15000.00''],
      [''2024-01-05'', ''income'', ''Salary'', ''50000.00'']] \<and>
   create_pdf_report [cafe] [] [] ''March 2024'' ''EUR'' =
     Inr (report_calls [cafe] [] [] ''March 2024'' ''EUR'') \<and>
   table_rows [] (report_calls [cafe] [] [] ''March 2024'' ''EUR'') =
     [[''Date'', ''Type'', ''Category'', ''Amount (EUR)''],
      [''2024-03-09'', ''expense'',
       ''Caf'' @ [CHR 0xC3, CHR 0xA9] @ '' du Commerce, rue de la Ga'', ''42.50'']]"
proof -
  have l: "load_transactions [salary, rent] = [rent, salary]"
    by (simp add: load_transactions_def salary_def rent_def less_eq_prod_def)
  have c: "first_chars 30 ''Rent'' = ''Rent''" "first_chars 30 ''Salary'' = ''Salary''"
    by (simp_all add: first_chars_def continuation_def)
  have t: "transaction_texts rent = [''2024-01-10'', ''expense'', ''Rent'', ''15000.00'']"
    "transaction_texts salary = [''2024-01-05'', ''income'', ''Salary'', ''50000.00'']"
    by (simp_all add: transaction_texts_def salary_def rent_def c isoformat_def zfill_def
        digits.simps digit_char_def format_2f_def round_half_even_def)
  have tc: "transaction_texts cafe =
      [''2024-03-09'', ''expense'',
       ''Caf'' @ [CHR 0xC3, CHR 0xA9] @ '' du Commerce, rue de la Ga'', ''42.50'']"
    by (simp add: transaction_texts_def cafe_def first_chars_def continuation_def
        isoformat_def zfill_def digits.simps digit_char_def format_2f_def round_half_even_def)
  have n: "replicate 25 rent \<noteq> []" by simp
  have e: "latin1 ''All time''" "latin1 ''PKR''" "latin1 (row_type rent)"
    "latin1 (first_chars 30 (row_category rent))"
    by (simp_all add: rent_def c) (simp_all add: latin1_def)
  have a: "list_all (\<lambda>r. latin1 (row_type r) \<and> latin1 (first_chars 30 (row_category r)))
             (take 20 (replicate 25 rent))"
    using e by (simp add: list_all_iff)
  have ec: "latin1 ''March 2024''" "latin1 ''EUR''" "latin1 (row_type cafe)"
    "latin1 (first_chars 30 (row_category cafe))"
    by (simp_all add: cafe_def first_chars_def continuation_def latin1_def)
  from create_pdf_report_table [OF n, of "[]" "[]" "''All time''" "''PKR''" "[]"]
  have "create_pdf_report (replicate 25 rent) [] [] ''All time'' ''PKR'' =
     Inr (report_calls (replicate 25 rent) [] [] ''All time'' ''PKR'')"
    and "length (table_rows []
           (report_calls (replicate 25 rent) [] [] ''All time'' ''PKR'')) = 21"
    using e a by simp_all
  moreover have "table_rows []
      (report_calls (load_transactions [salary, rent]) [] [] ''2024'' ''PKR'') =
     [[''Date'', ''Type'', ''Category'', ''Amount (PKR)''],
      [''2024-01-10'', ''expense'', ''Rent'', ''15000.00''],
      [''2024-01-05'', ''income'', ''Salary'', ''50000.00'']]"
    using create_pdf_report_table [of "[rent, salary]" "[]" "[]" "''2024''" "''PKR''" "[]"]
    by (simp add: l t)
  moreover
  from create_pdf_report_table [of "[cafe]" "[]" "[]" "''March 2024''" "''EUR''" "[]"]
  have "create_pdf_report [cafe] [] [] ''March 2024'' ''EUR'' =
     Inr (report_calls [cafe] [] [] ''March 2024'' ''EUR'')"
    and "table_rows [] (report_calls [cafe] [] [] ''March 2024'' ''EUR'') =
     [[''Date'', ''Type'', ''Category'', ''Amount (EUR)''],
      [''2024-03-09'', ''expense'',
       ''Caf'' @ [CHR 0xC3, CHR 0xA9] @ '' du Commerce, rue de la Ga'', ''42.50'']]"
    using ec by (simp_all add: tc)
  ultimately show ?thesis using n l by (intro conjI)
qed

text \<open>
  C10 (as stated): the negative colour is used if and only if the balance is strictly
  less than 0. The code tests \<^verbatim>\<open>value >= 0\<close> and takes the negative colour
  otherwise, and the test is false of NaN (the balance when both totals have overflowed
  to infinity): a NaN balance is drawn in the negative colour (255, 0, 0) without being
  less than 0.
\<close>

theorem create_pdf_report_nan_balance_red:
  "create_pdf_report [rent] [(''Balance'', NaN)] [] ''All time'' ''PKR'' =
     Inr (report_calls [rent] [(''Balance'', NaN)] [] ''All time'' ''PKR'') \<and>
   drawn (0, 0, 0) (report_calls [rent] [(''Balance'', NaN)] [] ''All time'' ''PKR'') ! 2 =
     ((255, 0, 0), ''Balance: nan PKR'') \<and>
   \<not> below_zero NaN"
proof -
  have c: "first_chars 30 ''Rent'' = ''Rent''"
    by (simp add: first_chars_def continuation_def)
  have "create_pdf_report [rent] [(''Balance'', NaN)] [] ''All time'' ''PKR'' =
     Inr (report_calls [rent] [(''Balance'', NaN)] [] ''All time'' ''PKR'')"
    by (simp add: create_pdf_report_result encodable_def rent_def c) (simp add: latin1_def)
  moreover have
    "drawn (0, 0, 0) (report_calls [rent] [(''Balance'', NaN)] [] ''All time'' ''PKR'') ! 2 =
     ((255, 0, 0), ''Balance: nan PKR'')"
    using drawn_report_calls [of 0 "[(''Balance'', NaN)]" "[rent]" "[]" "''All time''" "''PKR''"]
    by (simp add: metric_color_def summary_line_def del: add_2_eq_Suc add_2_eq_Suc')
  ultimately show ?thesis by simp
qed

text \<open>
  C10 (amended): \<^const>\<open>create_pdf_report\<close> returns a document when every text it
  draws can be encoded as Latin-1 and raises otherwise; in the document, a summary line
  whose metric is Balance is drawn in the negative colour (255, 0, 0) exactly when its
  value is below zero or NaN, and in the positive colour (0, 128, 0) otherwise, so also
  when the value is exactly zero. The summary lines are the third cell of the document
  onwards, one per row of the summary.
\<close>

theorem create_pdf_report_balance_color:
  assumes "i < length summary_df" and "fst (summary_df ! i) = ''Balance''"
  shows "create_pdf_report df summary_df category_df period_name currency =
           (if encodable df summary_df category_df period_name currency
            then Inr (report_calls df summary_df category_df period_name currency)
            else Inl UnicodeEncodeError) \<and>
         drawn (0, 0, 0) (report_calls df summary_df category_df period_name currency)
           ! (i + 2) =
         (if below_zero (snd (summary_df ! i)) \<or> snd (summary_df ! i) = NaN
          then (255, 0, 0) else (0, 128, 0),
          summary_line currency (summary_df ! i))"
proof
  show "create_pdf_report df summary_df category_df period_name currency =
           (if encodable df summary_df category_df period_name currency
            then Inr (report_calls df summary_df category_df period_name currency)
            else Inl UnicodeEncodeError)"
    by (rule create_pdf_report_result)
  have "at_least_zero v = (\<not> (below_zero v \<or> v = NaN))" for v
    by (cases v) auto
  then have "metric_color (summary_df ! i) =
               (if below_zero (snd (summary_df ! i)) \<or> snd (summary_df ! i) = NaN
                then (255, 0, 0) else (0, 128, 0))"
    using assms(2) by (simp add: metric_color_def)
  with drawn_report_calls [OF assms(1), of df category_df period_name currency]
  show "drawn (0, 0, 0) (report_calls df summary_df category_df period_name currency)
           ! (i + 2) =
         (if below_zero (snd (summary_df ! i)) \<or> snd (summary_df ! i) = NaN
          then (255, 0, 0) else (0, 128, 0),
          summary_line currency (summary_df ! i))"
    by (simp only:)
qed

text \<open>
  An instance of C10 (amended): a balance of exactly zero is drawn in the positive
  colour, a balance of -7000 in the negative one.
\<close>

theorem create_pdf_report_balance_color_witness:
  "2 < length (as_floats zero_summary) \<and> fst (as_floats zero_summary ! 2) = ''Balance'' \<and>
   create_pdf_report [] (as_floats zero_summary) [] ''2023'' ''PKR'' =
     Inr (report_calls [] (as_floats zero_summary) [] ''2023'' ''PKR'') \<and>
   drawn (0, 0, 0) (report_calls [] (as_floats zero_summary) [] ''2023'' ''PKR'') ! 4 =
     ((0, 128, 0), ''Balance: 0.00 PKR'') \<and>
   create_pdf_report [] [(''Balance'', Finite (- 7000))] [] ''2024'' ''PKR'' =
     Inr (report_calls [] [(''Balance'', Finite (- 7000))] [] ''2024'' ''PKR'') \<and>
   drawn (0, 0, 0) (report_calls [] [(''Balance'', Finite (- 7000))] [] ''2024'' ''PKR'') ! 2 =
     ((255, 0, 0), ''Balance: -7000.00 PKR'')"
proof -
  have a: "2 < length (as_floats zero_summary)"
    and b: "fst (as_floats zero_summary ! 2) = ''Balance''"
    and v: "snd (as_floats zero_summary ! 2) = Finite 0"
    by (simp_all add: zero_summary_def as_floats_def)
  have z: "summary_line ''PKR'' (as_floats zero_summary ! 2) = ''Balance: 0.00 PKR''"
    by (simp add: zero_summary_def as_floats_def summary_line_def format_2f_def
        round_half_even_def digits.simps digit_char_def)
  have e1: "encodable [] (as_floats zero_summary) [] ''2023'' ''PKR''"
    by (simp add: encodable_def zero_summary_def as_floats_def) (simp add: latin1_def)
  have e2: "encodable [] [(''Balance'', Finite (- 7000))] [] ''2024'' ''PKR''"
    by (simp add: encodable_def) (simp add: latin1_def)
  from create_pdf_report_balance_color [OF a b, of "[]" "[]" "''2023''" "''PKR''"]
  have "create_pdf_report [] (as_floats zero_summary) [] ''2023'' ''PKR'' =
     Inr (report_calls [] (as_floats zero_summary) [] ''2023'' ''PKR'')"
    and "drawn (0, 0, 0) (report_calls [] (as_floats zero_summary) [] ''2023'' ''PKR'') ! 4 =
     ((0, 128, 0), ''Balance: 0.00 PKR'')"
    by (simp_all add: e1 z v)
  moreover
  from create_pdf_report_balance_color
    [of 0 "[(''Balance'', Finite (- 7000))]" "[]" "[]" "''2024''" "''PKR''"]
  have "create_pdf_report [] [(''Balance'', Finite (- 7000))] [] ''2024'' ''PKR'' =
     Inr (report_calls [] [(''Balance'', Finite (- 7000))] [] ''2024'' ''PKR'')"
    and "drawn (0, 0, 0)
           (report_calls [] [(''Balance'', Finite (- 7000))] [] ''2024'' ''PKR'') ! 2 =
     ((255, 0, 0), ''Balance: -7000.00 PKR'')"
    by (simp_all add: e2 summary_line_def format_2f_def round_half_even_def digits.simps
        digit_char_def del: add_2_eq_Suc add_2_eq_Suc')
  ultimately show ?thesis using a b by (intro conjI)
qed

section \<open>Properties of the import\<close>

lemma missing_cols_listed:
  "missing_cols df =
     filter (\<lambda>c. c \<notin> set (columns df))
       [''type'', ''category'', ''amount'', ''currency'', ''date'']"
  by (simp only: missing_cols_def required_cols_def)

lemma filter_nonempty: "\<exists>x \<in> set xs. P x \<Longrightarrow> filter P xs \<noteq> []"
  by (simp add: filter_empty_conv)

lemma join_comma_separated:
  "join sep (x # xs) = x @ concat (map (\<lambda>c. sep @ c) xs)"
  by (induction xs arbitrary: x) simp_all

lemma process_decoded:
  "decoded pd uploaded_file df \<Longrightarrow> process_uploaded_file pd uploaded_file = validate_frame pd df"
  by (auto simp: process_uploaded_file_def decoded_def)

text \<open>
  C4: when the table read from a supported file lacks any of the required columns type,
  category, amount, currency, date, \<^const>\<open>process_uploaded_file\<close> returns no table and
  the message "Missing required columns: " followed by the names of the missing columns:
  those of type, category, amount, currency, date, in this order, that the table does
  not have, the first as it is and each further one after a comma and a space. In
  particular, when exactly amount and currency are missing the message ends in
  "amount, currency".
\<close>

theorem process_uploaded_file_missing_columns:
  assumes "decoded pd uploaded_file df"
    and "\<not> {''type'', ''category'', ''amount'', ''currency'', ''date''} \<subseteq> set (columns df)"
  shows "filter (\<lambda>c. c \<notin> set (columns df))
           [''type'', ''category'', ''amount'', ''currency'', ''date''] \<noteq> [] \<and>
         process_uploaded_file pd uploaded_file =
           (None,
            ''Missing required columns: '' @
            hd (filter (\<lambda>c. c \<notin> set (columns df))
                  [''type'', ''category'', ''amount'', ''currency'', ''date'']) @
            concat (map (\<lambda>c. '', '' @ c)
              (tl (filter (\<lambda>c. c \<notin> set (columns df))
                     [''type'', ''category'', ''amount'', ''currency'', ''date''])))) \<and>
         ({c \<in> {''type'', ''category'', ''amount'', ''currency'', ''date''}.
             c \<notin> set (columns df)} = {''amount'', ''currency''} \<longrightarrow>
            process_uploaded_file pd uploaded_file =
              (None, ''Missing required columns: amount, currency''))"
proof -
  define req where "req = [''type'', ''category'', ''amount'', ''currency'', ''date'']"
  define ms where "ms = filter (\<lambda>c. c \<notin> set (columns df)) req"
  have m: "missing_cols df = ms"
    unfolding ms_def req_def by (rule missing_cols_listed)
  have "\<exists>c \<in> set req. c \<notin> set (columns df)"
    using assms(2) unfolding req_def by simp
  then have ne: "ms \<noteq> []"
    unfolding ms_def by (rule filter_nonempty)
  then obtain x xs where ms: "ms = x # xs" by (cases ms) simp_all
  have "validate_frame pd df = (None, ''Missing required columns: '' @ join '', '' ms)"
    using ne by (simp add: validate_frame_def m)
  then have "process_uploaded_file pd uploaded_file =
      (None, ''Missing required columns: '' @ join '', '' ms)"
    using process_decoded [OF assms(1)] by simp
  then have named: "process_uploaded_file pd uploaded_file =
      (None, ''Missing required columns: '' @ hd ms @ concat (map (\<lambda>c. '', '' @ c) (tl ms)))"
    by (simp only: ms join_comma_separated list.sel)
  have two: "ms = [''amount'', ''currency'']"
    if h: "{c \<in> set req. c \<notin> set (columns df)} = {''amount'', ''currency''}"
  proof -
    have "(x \<notin> set (columns df)) = (x \<in> {''amount'', ''currency''})" if "x \<in> set req" for x
      using h that by blast
    then have "ms = filter (\<lambda>x. x \<in> {''amount'', ''currency''}) req"
      unfolding ms_def by (intro filter_cong refl)
    also have "\<dots> = [''amount'', ''currency'']"
      unfolding req_def by simp
    finally show ?thesis .
  qed
  have particular: "process_uploaded_file pd uploaded_file =
              (None, ''Missing required columns: amount, currency'')"
    if h: "{c \<in> set req. c \<notin> set (columns df)} = {''amount'', ''currency''}"
  proof -
    have "hd ms @ concat (map (\<lambda>c. '', '' @ c) (tl ms)) = ''amount, currency''"
      unfolding two [OF h] by simp
    with named show ?thesis by simp
  qed
  have s: "set req = {''type'', ''category'', ''amount'', ''currency'', ''date''}"
    unfolding req_def by simp
  show ?thesis
  proof (intro conjI impI)
    show "filter (\<lambda>c. c \<notin> set (columns df))
           [''type'', ''category'', ''amount'', ''currency'', ''date''] \<noteq> []"
      using ne unfolding ms_def req_def .
    show "process_uploaded_file pd uploaded_file =
           (None,
            ''Missing required columns: '' @
            hd (filter (\<lambda>c. c \<notin> set (columns df))
                  [''type'', ''category'', ''amount'', ''currency'', ''date'']) @
            concat (map (\<lambda>c. '', '' @ c)
              (tl (filter (\<lambda>c. c \<notin> set (columns df))
                     [''type'', ''category'', ''amount'', ''currency'', ''date'']))))"
      using named unfolding ms_def req_def .
    assume "{c \<in> {''type'', ''category'', ''amount'', ''currency'', ''date''}.
             c \<notin> set (columns df)} = {''amount'', ''currency''}"
    then have "{c \<in> set req. c \<notin> set (columns df)} = {''amount'', ''currency''}"
      by (simp only: s)
    then show "process_uploaded_file pd uploaded_file =
              (None, ''Missing required columns: amount, currency'')"
      by (rule particular)
  qed
qed

text \<open>
  Instances of C4, with one, two and all five columns missing: a spreadsheet without the
  date column is answered with "Missing required columns: date", a CSV file with the
  columns date, type, category, notes with "Missing required columns: amount, currency",
  and a CSV file whose only column is Amount with all five names.
\<close>

theorem process_uploaded_file_missing_columns_witness:
  "decoded typed_columns_only upload_missing_one (content upload_missing_one) \<and>
   process_uploaded_file typed_columns_only upload_missing_one =
     (None, ''Missing required columns: date'') \<and>
   decoded typed_columns_only upload_missing_two (content upload_missing_two) \<and>
   process_uploaded_file typed_columns_only upload_missing_two =
     (None, ''Missing required columns: amount, currency'') \<and>
   decoded typed_columns_only upload_missing_all (content upload_missing_all) \<and>
   process_uploaded_file typed_columns_only upload_missing_all =
     (None, ''Missing required columns: type, category, amount, currency, date'')"
proof -
  have d1: "decoded typed_columns_only upload_missing_one (content upload_missing_one)"
    by (simp add: decoded_def typed_columns_only_def upload_missing_one_def suffix_to_prefix)
  have d2: "decoded typed_columns_only upload_missing_two (content upload_missing_two)"
    by (simp add: decoded_def typed_columns_only_def upload_missing_two_def suffix_to_prefix)
  have d5: "decoded typed_columns_only upload_missing_all (content upload_missing_all)"
    by (simp add: decoded_def typed_columns_only_def upload_missing_all_def suffix_to_prefix)
  have c1: "columns (content upload_missing_one) =
              [''type'', ''category'', ''amount'', ''currency'']"
    by (simp add: upload_missing_one_def)
  have c2: "columns (content upload_missing_two) = [''date'', ''type'', ''category'', ''notes'']"
    by (simp add: upload_missing_two_def)
  have c5: "columns (content upload_missing_all) = [''Amount'']"
    by (simp add: upload_missing_all_def)
  have "process_uploaded_file typed_columns_only upload_missing_one =
     (None, ''Missing required columns: date'')"
    using process_uploaded_file_missing_columns [OF d1] by (simp add: c1)
  moreover have "process_uploaded_file typed_columns_only upload_missing_two =
     (None, ''Missing required columns: amount, currency'')"
    using process_uploaded_file_missing_columns [OF d2] by (simp add: c2)
  moreover have "process_uploaded_file typed_columns_only upload_missing_all =
     (None, ''Missing required columns: type, category, amount, currency, date'')"
    using process_uploaded_file_missing_columns [OF d5] by (simp add: c5)
  ultimately show ?thesis using d1 d2 d5 by (intro conjI)
qed

text \<open>
  C5: when the table read from a supported file has all required columns and the
  coercion of its amount column to numbers fails, or the coercion of its date column to
  dates fails, \<^const>\<open>process_uploaded_file\<close> returns no table and the fixed message
  "Invalid data types in amount or date columns"; the failure does not escape as an
  exception.
\<close>

theorem process_uploaded_file_coercion_failure:
  assumes "decoded pd uploaded_file df" and "set required_cols \<subseteq> set (columns df)"
    and "to_numeric pd (column df ''amount'') = None \<or>
         to_datetime pd (column df ''date'') = None"
  shows "process_uploaded_file pd uploaded_file =
           (None, ''Invalid data types in amount or date columns'')"
proof -
  have "missing_cols df = []"
    using assms(2) by (auto simp: missing_cols_def filter_empty_conv)
  then have "validate_frame pd df = (None, ''Invalid data types in amount or date columns'')"
    using assms(3) by (auto simp: validate_frame_def split: option.splits)
  with process_decoded [OF assms(1)] show ?thesis by simp
qed

text \<open>
  An instance of C5: a CSV file whose only row has the amount "abc" is answered with the
  fixed message.
\<close>

theorem process_uploaded_file_coercion_failure_witness:
  "decoded typed_columns_only upload_abc (content upload_abc) \<and>
   set required_cols \<subseteq> set (columns (content upload_abc)) \<and>
   column (content upload_abc) ''amount'' = [Str ''abc''] \<and>
   to_numeric typed_columns_only (column (content upload_abc) ''amount'') = None \<and>
   process_uploaded_file typed_columns_only upload_abc =
     (None, ''Invalid data types in amount or date columns'')"
proof -
  have d: "decoded typed_columns_only upload_abc (content upload_abc)"
    by (simp add: decoded_def typed_columns_only_def upload_abc_def suffix_to_prefix)
  have r: "set required_cols \<subseteq> set (columns (content upload_abc))"
    by (simp add: required_cols_def upload_abc_def)
  have c: "column (content upload_abc) ''amount'' = [Str ''abc'']"
    by (simp add: column_def upload_abc_def)
  have n: "to_numeric typed_columns_only (column (content upload_abc) ''amount'') = None"
    by (simp add: c typed_columns_only_def)
  from process_uploaded_file_coercion_failure [OF d r disjI1 [OF n]] d r c n
  show ?thesis by blast
qed

section \<open>Properties of the store\<close>

lemma insert_row_appends: "insert_row cols r db = Inr db' \<Longrightarrow> prefix db db'"
  by (auto simp: insert_row_def then_sql_def Let_def split: sum.splits)

lemma insert_rows_appends: "insert_rows cols rs db = Inr db' \<Longrightarrow> prefix db db'"
proof (induction rs arbitrary: db)
  case Nil
  then show ?case by simp
next
  case (Cons r rs)
  then obtain db1 where 1: "insert_row cols r db = Inr db1"
    and 2: "insert_rows cols rs db1 = Inr db'"
    by (auto simp: then_sql_def split: sum.splits)
  from insert_row_appends [OF 1] Cons.IH [OF 2] show ?case
    by (rule prefix_order.trans)
qed

text \<open>
  What the store does guarantee. A transaction entered through the sidebar form, whose
  type comes from the form's selector, is stored with a positive amount, a type of
  income or expense and a non-empty category (General when the field is blank); the
  form stores it whenever the amount is positive and the largest key is not used up.
  And every operation only appends: a successful \<^const>\<open>add_transaction\<close> and a
  successful \<^const>\<open>bulk_insert_transactions\<close> leave the rows already stored as they
  are.
\<close>

lemma store_form_valid_and_append_only:
  "(tx_type \<in> {''expense'', ''income''} \<and>
    sidebar_form_submitted tx_type category amount currency tx_date notes db = Stored db1 \<longrightarrow>
      (\<exists>t. db1 = db @ [t] \<and> valid_transaction t \<and> 0 < row_amount t \<and>
           (strip category = [] \<longrightarrow> row_category t = ''General''))) \<and>
   (0 < amount \<and> fold max (map row_id db) 0 < max_rowid \<longrightarrow>
      (\<exists>db'. sidebar_form_submitted tx_type category amount currency tx_date notes db =
               Stored db')) \<and>
   (add_transaction tx_type category amount currency tx_date notes db = Inr db3 \<longrightarrow>
      prefix db db3) \<and>
   (bulk_insert_transactions transactions_df db = Inr db2 \<longrightarrow> prefix db db2)"
proof (intro conjI impI)
  assume a: "tx_type \<in> {''expense'', ''income''} \<and>
    sidebar_form_submitted tx_type category amount currency tx_date notes db = Stored db1"
  then have pos: "0 < amount"
    by (auto simp: sidebar_form_submitted_def split: if_splits)
  define c where "c = (if strip category = [] then ''General'' else strip category)"
  have "c \<noteq> []" by (simp add: c_def)
  moreover have "add_transaction tx_type c amount currency tx_date notes db = Inr db1"
    using a pos by (auto simp: sidebar_form_submitted_def c_def split: sum.splits if_splits)
  ultimately show "\<exists>t. db1 = db @ [t] \<and> valid_transaction t \<and> 0 < row_amount t \<and>
           (strip category = [] \<longrightarrow> row_category t = ''General'')"
    using a pos
    by (auto simp: add_transaction_def valid_transaction_def c_def split: sum.splits)
next
  assume "0 < amount \<and> fold max (map row_id db) 0 < max_rowid"
  then show "\<exists>db'. sidebar_form_submitted tx_type category amount currency tx_date notes db =
               Stored db'"
    by (simp add: sidebar_form_submitted_def add_transaction_def next_id_def Let_def)
next
  assume "add_transaction tx_type category amount currency tx_date notes db = Inr db3"
  then show "prefix db db3"
    by (auto simp: add_transaction_def split: sum.splits)
next
  assume "bulk_insert_transactions transactions_df db = Inr db2"
  then have "insert_rows (columns transactions_df) (records transactions_df) db = Inr db2"
    by (simp add: bulk_insert_transactions_def split: if_splits)
  then show "prefix db db2" by (rule insert_rows_appends)
qed

text \<open>
  Two instances: a category made of a no-break space (U+00A0) and a space is blank, so
  the form stores General; and once the key \<open>2^63 - 1\<close> is in use,
  \<^const>\<open>add_transaction\<close> fails and stores nothing.
\<close>

lemma sidebar_form_blank_category:
  "sidebar_form_submitted ''expense'' ([CHR 0xC2, CHR 0xA0] @ '' '') 5 ''PKR''
     (Date 2024 1 1) [] [] =
     Stored [\<lparr>row_id = 1, row_type = ''expense'', row_category = ''General'', row_amount = 5,
              row_currency = ''PKR'', row_date = Date 2024 1 1, row_notes = Some []\<rparr>]"
  by (simp add: sidebar_form_submitted_def add_transaction_def next_id_def max_rowid_def
      strip_def isspace_def whitespace_def continuation_def)

lemma add_transaction_key_used_up:
  "add_transaction ''expense'' ''Rent'' 5 ''PKR'' (Date 2024 1 1) []
     [rent\<lparr>row_id := 2 ^ 63 - 1\<rparr>] = Inl OperationalError"
  by (simp add: add_transaction_def next_id_def max_rowid_def)

text \<open>
  C9: every transaction that enters the store, by the form or by bulk import, has an
  amount of at least zero, a type of income or expense and a non-empty category. The
  bulk import does not uphold this: an uploaded spreadsheet with the one row
  (refund, Misc, -5, PKR, 2024-01-05) passes \<^const>\<open>process_uploaded_file\<close>, which
  checks only that the required columns are there and that amount and date coerce, and
  \<^const>\<open>bulk_insert_transactions\<close> stores the row as it is, with a negative amount
  and a type that is neither income nor expense.
\<close>

theorem bulk_import_stores_invalid_transaction:
  "process_uploaded_file typed_columns_only refund_upload =
     (Some refund_frame, ''File processed successfully!'') \<and>
   bulk_insert_transactions refund_frame [] = Inr [refund_row] \<and>
   \<not> valid_transaction refund_row"
proof -
  have "process_uploaded_file typed_columns_only refund_upload =
          (Some refund_frame, ''File processed successfully!'')"
    by (simp add: process_uploaded_file_def refund_upload_def suffix_to_prefix
        typed_columns_only_def validate_frame_def missing_cols_def required_cols_def
        refund_frame_def column_def set_column_def)
  moreover have "bulk_insert_transactions refund_frame [] = Inr [refund_row]"
    by (simp add: bulk_insert_transactions_def refund_frame_def table_columns_def
        insert_row_def then_sql_def next_id_def max_rowid_def refund_row_def)
  moreover have "\<not> valid_transaction refund_row"
    by (simp add: valid_transaction_def refund_row_def)
  ultimately show ?thesis by blast
qed

section \<open>Properties of the export\<close>



lemma set_column_rows:
  "records (set_column f c (map g xs)) =
     map (\<lambda>(r, x). map (\<lambda>(n, v). if n = c then g x else v) (zip (columns f) r))
       (zip (records f) xs)"
  by (simp add: set_column_def zip_map2 comp_def case_prod_unfold)






end
